theory Spec2Isabelle
  imports Main "HOL-Library.Char_ord" "HOL-Library.List_Lexorder"
begin

unbundle bit_operations_syntax

section \<open>Common vocabulary of the handlers\<close>

text \<open>
  A Go \<open>error\<close> value: a message, possibly wrapped with the context of the operation
  that failed (\<open>flex.FmtErrorf\<close>, \<open>flex.TerraformErrorf\<close>, \<open>fmt.Errorf\<close>, \<open>diag.Errorf\<close>).
\<close>

datatype error = Error string | Wrapped string error


text \<open>
  How a handler ends: it returns nil (\<open>Ok\<close>), it returns an error or error diagnostics
  (\<open>Failed\<close>), or the goroutine panics (nil pointer dereference, index out of range).
  An error made with a format string keeps the text of the format. A panic ends the
  plugin process: the record that comes with \<open>Panicked\<close> is of no consequence.
\<close>

datatype outcome = Ok | Failed error | Panicked

text \<open>
  What a handler does to the outside, in order: a request to a vendor API (operation
  name and the identifiers it is addressed to), and the acquisition and release of a
  named lock of the process-wide \<open>conns.IbmMutexKV\<close>.
\<close>

datatype event = Call string "string list" | Lock string | Unlock string

text \<open>The HTTP response that comes with an SDK call (\<open>core.DetailedResponse\<close>).\<close>

record DetailedResponse =
  StatusCode :: int

text \<open>
  The poll status labels of the power package (\<open>State_Available\<close>, \<open>State_Retry\<close>, ...).
  They are string constants declared in a constants file that is not among the sources
  at hand; the model keeps them as an enumeration, one constructor per constant, and
  \<open>State_Empty\<close> for the empty label \<open>""\<close> that accompanies a refresh error.
\<close>

datatype poll_state =
    State_Empty
  | State_Retry
  | State_Build
  | State_Available
  | State_Found
  | State_NotFound
  | State_Active
  | State_Inactive
  | State_Configuring
  | State_Failed
  | State_Error

text \<open>
  What a \<open>retry.StateRefreshFunc\<close> returns: the entity snapshot, the status label and
  the error; or the call panics.
\<close>

datatype 'a refresh = Refresh "'a option" poll_state "error option" | RefreshPanic

text \<open>
  The fields of a \<open>retry.StateChangeConf\<close> that the handlers set: the pending and the
  target labels, the timeout and the poll interval \<open>MinTimeout\<close>, both in seconds.
\<close>

record StateChangeConf =
  Pending :: "poll_state list"
  Target :: "poll_state list"
  Timeout :: nat
  MinTimeout :: nat

subsection \<open>The configuration record\<close>

text \<open>
  A value of the configuration schema, and \<open>schema.ResourceData\<close> as the handlers use
  it: the identity, the current value of each field, and the answer of the schema engine
  to "has this field changed" (the diff is computed outside the handlers). The type of
  the field names is a parameter: strings where the sources give the names, an
  enumeration where they only give the Go constants.
\<close>

datatype 'k tfvalue =
    TfNull
  | TfString string
  | TfInt int
  | TfBool bool
  | TfList "'k tfvalue list"
  | TfMap "('k \<times> 'k tfvalue) list"

record 'k ResourceData =
  Id :: string
  attrs :: "'k \<rightharpoonup> 'k tfvalue"
  HasChange :: "'k \<Rightarrow> bool"





definition d_Set :: "'k ResourceData \<Rightarrow> 'k \<Rightarrow> 'k tfvalue \<Rightarrow> 'k ResourceData" where
  "d_Set d k v = d\<lparr>attrs := (attrs d)(k \<mapsto> v)\<rparr>"

definition d_SetId :: "'k ResourceData \<Rightarrow> string \<Rightarrow> 'k ResourceData" where
  "d_SetId d i = d\<lparr>Id := i\<rparr>"





text \<open>A pointer to a string written into the state: nil is the null value.\<close>

definition ptrString :: "string option \<Rightarrow> 'k tfvalue" where
  "ptrString p = (case p of None \<Rightarrow> TfNull | Some s \<Rightarrow> TfString s)"

definition ptrInt :: "int option \<Rightarrow> 'k tfvalue" where
  "ptrInt p = (case p of None \<Rightarrow> TfNull | Some i \<Rightarrow> TfInt i)"


subsection \<open>Strings\<close>

text \<open>\<open>strings.Split(s, sep)\<close> for a separator of one byte: never empty.\<close>

fun strings_Split :: "string \<Rightarrow> char \<Rightarrow> string list" where
  "strings_Split [] sep = [[]]"
| "strings_Split (c # cs) sep =
     (if c = sep then [] # strings_Split cs sep
      else (case strings_Split cs sep of
              [] \<Rightarrow> [[c]]
            | w # ws \<Rightarrow> (c # w) # ws))"




text \<open>\<open>sort.Strings\<close>: ascending, bytewise lexicographic order.\<close>

definition sort_Strings :: "string list \<Rightarrow> string list" where
  "sort_Strings xs = sort xs"




section \<open>Power network (resource\_ibm\_pi\_network.go)\<close>

subsection \<open>The vendor models\<close>

text \<open>
  \<open>models.IPAddressRange\<close>, \<open>models.Network\<close> and \<open>models.NetworkUpdate\<close> of the vendor
  client, with the fields the handlers read. A Go pointer field is an \<open>option\<close>.
\<close>

record IPAddressRange =
  StartingIPAddress :: "string option"
  EndingIPAddress :: "string option"

record Network =
  Advertise :: string
  ArpBroadcast :: string
  DNSServers :: "string list"
  Gateway :: string
  IPAddressRanges :: "IPAddressRange option list"
  Name :: "string option"
  VlanID :: "int option"

record NetworkUpdate =
  uAdvertise :: string
  uArpBroadcast :: string
  uDNSServers :: "string list"
  uGateway :: "string option"
  uIPAddressRanges :: "IPAddressRange option list"
  uName :: "string option"

subsection \<open>isIBMPINetworkRefreshFunc and isIBMPINetworkRefreshDeleteFunc\<close>



definition isIBMPINetworkRefreshDeleteFunc :: "error + Network \<Rightarrow> Network refresh" where
  "isIBMPINetworkRefreshDeleteFunc got =
     (case got of
        Inl err \<Rightarrow> Refresh None State_NotFound None
      | Inr network \<Rightarrow> Refresh (Some network) State_Found None)"

definition isWaitForIBMPINetworkDeleted_conf :: "nat \<Rightarrow> StateChangeConf" where
  "isWaitForIBMPINetworkDeleted_conf timeout =
     \<lparr>Pending = [State_Found], Target = [State_NotFound],
      Timeout = timeout, MinTimeout = 10\<rparr>"

subsection \<open>isIBMPINetworkRefreshUpdateFunc\<close>

text \<open>
  The block \<open>if len(updateBody.DNSServers) > 0 { ... }\<close>. Both slices are sorted in
  place, so the snapshot returned afterwards carries the sorted list. The flag is \<open>True\<close>
  when the block returns \<open>network, State_Retry, nil\<close>. The loop ranges over
  \<open>network.DNSServers\<close> and compares \<open>dnsServer\<close> with \<open>network.DNSServers[index]\<close>.
\<close>

definition checkDNSServers :: "string list \<Rightarrow> Network \<Rightarrow> bool \<times> Network" where
  "checkDNSServers updateDNS network =
     (if 0 < length updateDNS then
        let updateDNS' = sort_Strings updateDNS;
            network' = network\<lparr>DNSServers := sort_Strings (DNSServers network)\<rparr>
        in if length updateDNS' \<noteq> length (DNSServers network') then (True, network')
           else if list_ex (\<lambda>(index, dnsServer). dnsServer \<noteq> DNSServers network' ! index)
                     (enumerate 0 (DNSServers network'))
           then (True, network')
           else (False, network')
      else (False, network))"

text \<open>
  The string \<open>*r.StartingIPAddress + "-" + *r.EndingIPAddress\<close> of the range at
  \<open>index\<close>; \<open>None\<close> when the evaluation panics (index out of range, nil range, nil
  address).
\<close>

definition rangeString :: "IPAddressRange option list \<Rightarrow> nat \<Rightarrow> string option" where
  "rangeString rs index =
     (if index < length rs then
        (case rs ! index of
           None \<Rightarrow> None
         | Some r \<Rightarrow>
             (case (StartingIPAddress r, EndingIPAddress r) of
                (Some s, Some e) \<Rightarrow> Some (s @ ''-'' @ e)
              | _ \<Rightarrow> None))
      else None)"

text \<open>
  The loop \<open>for index := range len(updateBody.IPAddressRanges)\<close> that fills the two
  string lists; \<open>None\<close> when an iteration panics. The update body's string is evaluated
  first, as in the source.
\<close>

fun collectRanges ::
  "IPAddressRange option list \<Rightarrow> IPAddressRange option list \<Rightarrow> nat list \<Rightarrow>
   (string list \<times> string list) option" where
  "collectRanges us ns [] = Some ([], [])"
| "collectRanges us ns (index # rest) =
     (case rangeString us index of
        None \<Rightarrow> None
      | Some u \<Rightarrow>
          (case rangeString ns index of
             None \<Rightarrow> None
           | Some n \<Rightarrow>
               (case collectRanges us ns rest of
                  None \<Rightarrow> None
                | Some (bs, cs) \<Rightarrow> Some (u # bs, n # cs))))"

text \<open>
  The block \<open>if len(updateBody.IPAddressRanges) > 0 { ... }\<close>: \<open>Some True\<close> when it
  returns \<open>State_Retry\<close>, \<open>Some False\<close> when it falls through, \<open>None\<close> when it panics.
\<close>

definition checkIPAddressRanges ::
  "IPAddressRange option list \<Rightarrow> IPAddressRange option list \<Rightarrow> bool option" where
  "checkIPAddressRanges updateRanges networkRanges =
     (if 0 < length updateRanges then
        if length updateRanges \<noteq> length networkRanges then Some True
        else
          (case collectRanges updateRanges networkRanges [0 ..< length updateRanges] of
             None \<Rightarrow> None
           | Some (updateBodyIPAddressRanges, networkIPAddressRanges) \<Rightarrow>
               let us = sort_Strings updateBodyIPAddressRanges;
                   ns = sort_Strings networkIPAddressRanges
               in Some (list_ex (\<lambda>index. us ! index \<noteq> ns ! index)
                          [0 ..< length updateRanges]))
      else Some False)"

definition isIBMPINetworkRefreshUpdateFunc ::
  "NetworkUpdate \<Rightarrow> error + Network \<Rightarrow> Network refresh" where
  "isIBMPINetworkRefreshUpdateFunc updateBody got =
     (case got of
        Inl err \<Rightarrow> Refresh None State_Empty (Some err)
      | Inr network \<Rightarrow>
          if uAdvertise updateBody \<noteq> '''' \<and> uAdvertise updateBody \<noteq> Advertise network
          then Refresh (Some network) State_Retry None
          else if uArpBroadcast updateBody \<noteq> '''' \<and>
                  uArpBroadcast updateBody \<noteq> ArpBroadcast network
          then Refresh (Some network) State_Retry None
          else
            (case checkDNSServers (uDNSServers updateBody) network of
               (True, network') \<Rightarrow> Refresh (Some network') State_Retry None
             | (False, network') \<Rightarrow>
                 if (case uGateway updateBody of
                       None \<Rightarrow> False
                     | Some gateway \<Rightarrow> gateway \<noteq> Gateway network')
                 then Refresh (Some network') State_Retry None
                 else
                   (case checkIPAddressRanges (uIPAddressRanges updateBody)
                           (IPAddressRanges network') of
                      None \<Rightarrow> RefreshPanic
                    | Some True \<Rightarrow> Refresh (Some network') State_Retry None
                    | Some False \<Rightarrow>
                        (case uName updateBody of
                           None \<Rightarrow> Refresh (Some network') State_Available None
                         | Some name \<Rightarrow>
                             (case Name network' of
                                None \<Rightarrow> RefreshPanic
                              | Some observed \<Rightarrow>
                                  if name \<noteq> observed
                                  then Refresh (Some network') State_Retry None
                                  else Refresh (Some network') State_Available None)))))"

text \<open>An update body with no field set, and a network with no field set.\<close>

definition emptyNetworkUpdate :: NetworkUpdate where
  "emptyNetworkUpdate =
     \<lparr>uAdvertise = '''', uArpBroadcast = '''', uDNSServers = [], uGateway = None,
      uIPAddressRanges = [], uName = None\<rparr>"

definition emptyNetwork :: Network where
  "emptyNetwork =
     \<lparr>Advertise = '''', ArpBroadcast = '''', DNSServers = [], Gateway = '''',
      IPAddressRanges = [], Name = None, VlanID = None\<rparr>"

subsection \<open>generateIPData\<close>









subsection \<open>resourceIBMPINetworkCreate\<close>
















subsection \<open>resourceIBMPINetworkUpdate\<close>



subsection \<open>The poll loop\<close>







subsection \<open>A vendor and a configuration, for evaluation\<close>



section \<open>Private DNS (resource\_ibm\_private\_dns\_glb\_monitor.go and the permitted network)\<close>

text \<open>
  The field names of the monitor, as the source declares them. \<open>pdnsInstanceID\<close> and
  \<open>pdnsZoneID\<close> are declared in another file of the package: the handlers take them as
  parameters.
\<close>

record dns_names =
  pdnsInstanceID :: string
  pdnsZoneID :: string

definition pdnsGlbMonitorName :: string where "pdnsGlbMonitorName = ''name''"
definition pdnsGlbMonitorID :: string where "pdnsGlbMonitorID = ''monitor_id''"
definition pdnsGlbMonitorDescription :: string where "pdnsGlbMonitorDescription = ''description''"
definition pdnsGlbMonitorType :: string where "pdnsGlbMonitorType = ''type''"
definition pdnsGlbMonitorPort :: string where "pdnsGlbMonitorPort = ''port''"
definition pdnsGlbMonitorInterval :: string where "pdnsGlbMonitorInterval = ''interval''"
definition pdnsGlbMonitorRetries :: string where "pdnsGlbMonitorRetries = ''retries''"
definition pdnsGlbMonitorTimeout :: string where "pdnsGlbMonitorTimeout = ''timeout''"
definition pdnsGlbMonitorMethod :: string where "pdnsGlbMonitorMethod = ''method''"
definition pdnsGlbMonitorPath :: string where "pdnsGlbMonitorPath = ''path''"
definition pdnsGlbMonitorAllowInsecure :: string where
  "pdnsGlbMonitorAllowInsecure = ''allow_insecure''"
definition pdnsGlbMonitorExpectedCodes :: string where
  "pdnsGlbMonitorExpectedCodes = ''expected_codes''"
definition pdnsGlbMonitorExpectedBody :: string where
  "pdnsGlbMonitorExpectedBody = ''expected_body''"
definition pdnsGlbMonitorHeaders :: string where "pdnsGlbMonitorHeaders = ''headers''"
definition pdnsGlbMonitorHeadersName :: string where "pdnsGlbMonitorHeadersName = ''name''"
definition pdnsGlbMonitorHeadersValue :: string where "pdnsGlbMonitorHeadersValue = ''value''"
definition pdnsGlbMonitorCreatedOn :: string where "pdnsGlbMonitorCreatedOn = ''created_on''"
definition pdnsGlbMonitorModifiedOn :: string where "pdnsGlbMonitorModifiedOn = ''modified_on''"

definition pdnsVpcCRN :: string where "pdnsVpcCRN = ''vpc_crn''"
definition pdnsNetworkType :: string where "pdnsNetworkType = ''type''"
definition pdnsPermittedNetworkID :: string where
  "pdnsPermittedNetworkID = ''permitted_network_id''"
definition pdnsPermittedNetworkCreatedOn :: string where
  "pdnsPermittedNetworkCreatedOn = ''created_on''"
definition pdnsPermittedNetworkModifiedOn :: string where
  "pdnsPermittedNetworkModifiedOn = ''modified_on''"
definition pdnsPermittedNetworkState :: string where "pdnsPermittedNetworkState = ''state''"

text \<open>
  \<open>dnssvcsv1.Monitor\<close> and \<open>dnssvcsv1.PermittedNetwork\<close>, the answers of the service.
  Every field is a pointer. The two dates are held in their textual form
  (\<open>CreatedOn.String()\<close>); \<open>nVpcCrn\<close> is \<open>PermittedNetwork.VpcCrn\<close> behind the pointer
  \<open>PermittedNetwork\<close>.
\<close>

record Monitor =
  mID :: "string option"
  mName :: "string option"
  mCreatedOn :: "string option"
  mModifiedOn :: "string option"
  mType :: "string option"
  mPort :: "int option"
  mPath :: "string option"
  mInterval :: "int option"
  mRetries :: "int option"
  mTimeout :: "int option"
  mMethod :: "string option"
  mExpectedCodes :: "string option"
  mAllowInsecure :: "bool option"
  mDescription :: "string option"
  mExpectedBody :: "string option"
  mHeadersVar :: "(string option \<times> string list) list"

record PermittedNetwork =
  nID :: "string option"
  nCreatedOn :: "string option"
  nModifiedOn :: "string option"
  nVpcCrn :: "string option option"
  nType :: "string option"
  nState :: "string option"

text \<open>
  The DNS service as the handlers call it. A request gives the result, the detailed
  response and the error, each of which may be nil. The options of an update are the
  list of the fields set on them, in the order of the setters.
\<close>

record DNSAPI =
  PrivateDNSClientSession :: "error option"
  GetMonitor ::
    "string \<Rightarrow> string \<Rightarrow> Monitor option \<times> DetailedResponse option \<times> error option"
  UpdateMonitor ::
    "string \<Rightarrow> string \<Rightarrow> (string \<times> string tfvalue) list \<Rightarrow>
     DetailedResponse option \<times> error option"
  DeleteMonitor :: "string \<Rightarrow> string \<Rightarrow> DetailedResponse option \<times> error option"
  NewPermittedNetworkVpc :: "string \<Rightarrow> error option"
  CreatePermittedNetwork ::
    "string \<Rightarrow> string \<Rightarrow> string \<Rightarrow> string \<Rightarrow>
     PermittedNetwork option \<times> DetailedResponse option \<times> error option"
  GetPermittedNetwork ::
    "string \<Rightarrow> string \<Rightarrow> string \<Rightarrow>
     PermittedNetwork option \<times> DetailedResponse option \<times> error option"
  DeletePermittedNetwork ::
    "string \<Rightarrow> string \<Rightarrow> string \<Rightarrow> DetailedResponse option \<times> error option"

text \<open>A run of \<open>d.Set\<close> calls, in order.\<close>

definition d_SetAll :: "'k ResourceData \<Rightarrow> ('k \<times> 'k tfvalue) list \<Rightarrow> 'k ResourceData" where
  "d_SetAll d writes = foldl (\<lambda>d' (k, v). d_Set d' k v) d writes"

text \<open>A \<open>d.Set\<close> that the source guards with \<open>if p != nil\<close>.\<close>

definition whenSet :: "'a option \<Rightarrow> 'k \<Rightarrow> ('a \<Rightarrow> 'k tfvalue) \<Rightarrow> ('k \<times> 'k tfvalue) list" where
  "whenSet p k f = (case p of None \<Rightarrow> [] | Some x \<Rightarrow> [(k, f x)])"

subsection \<open>The monitor: Read, Update, Delete, Exists\<close>

definition flattenDataSourceLoadBalancerHeader ::
  "(string option \<times> string list) list \<Rightarrow> string tfvalue" where
  "flattenDataSourceLoadBalancerHeader header =
     TfList (map (\<lambda>(name, val).
                    TfMap [(pdnsGlbMonitorHeadersName, ptrString name),
                           (pdnsGlbMonitorHeadersValue, TfList (map TfString val))])
               header)"

text \<open>The writes of the monitor Read, after the two dates have been formatted.\<close>

definition monitorWrites ::
  "dns_names \<Rightarrow> string \<Rightarrow> Monitor \<Rightarrow> string \<Rightarrow> string \<Rightarrow> (string \<times> string tfvalue) list" where
  "monitorWrites names instance response createdOn modifiedOn =
     [(pdnsInstanceID names, TfString instance),
      (pdnsGlbMonitorID, ptrString (mID response)),
      (pdnsGlbMonitorName, ptrString (mName response)),
      (pdnsGlbMonitorCreatedOn, TfString createdOn),
      (pdnsGlbMonitorModifiedOn, TfString modifiedOn),
      (pdnsGlbMonitorType, ptrString (mType response)),
      (pdnsGlbMonitorPort, ptrInt (mPort response))]
     @ whenSet (mPath response) pdnsGlbMonitorPath TfString
     @ whenSet (mInterval response) pdnsGlbMonitorInterval TfInt
     @ whenSet (mRetries response) pdnsGlbMonitorRetries TfInt
     @ whenSet (mTimeout response) pdnsGlbMonitorTimeout TfInt
     @ whenSet (mMethod response) pdnsGlbMonitorMethod TfString
     @ whenSet (mExpectedCodes response) pdnsGlbMonitorExpectedCodes TfString
     @ whenSet (mAllowInsecure response) pdnsGlbMonitorAllowInsecure TfBool
     @ whenSet (mDescription response) pdnsGlbMonitorDescription TfString
     @ whenSet (mExpectedBody response) pdnsGlbMonitorExpectedBody TfString
     @ [(pdnsGlbMonitorHeaders, flattenDataSourceLoadBalancerHeader (mHeadersVar response))]"

text \<open>
  \<open>idset[0]\<close> and \<open>idset[1]\<close> are read with no check of \<open>len(idset)\<close>: an identity
  without a separator panics at \<open>idset[1]\<close>.
\<close>

definition resourceIBMPrivateDNSGLBMonitorRead ::
  "dns_names \<Rightarrow> DNSAPI \<Rightarrow> string ResourceData \<Rightarrow>
   outcome \<times> string ResourceData \<times> event list" where
  "resourceIBMPrivateDNSGLBMonitorRead names api d =
     (case PrivateDNSClientSession api of
        Some err \<Rightarrow> (Failed err, d, [])
      | None \<Rightarrow>
          let idset = strings_Split (Id d) CHR ''/'' in
          if length idset < 2 then (Panicked, d, [])
          else
            let calls = [Call ''GetMonitor'' [idset ! 0, idset ! 1]] in
            (case GetMonitor api (idset ! 0) (idset ! 1) of
               (response, detail, Some err) \<Rightarrow>
                 (Failed (Wrapped ''[ERROR] Error fetching dns services GLB Monitor:'' err),
                  d, calls)
             | (None, detail, None) \<Rightarrow> (Panicked, d, calls)
             | (Some response, detail, None) \<Rightarrow>
                 (case (mCreatedOn response, mModifiedOn response) of
                    (Some createdOn, Some modifiedOn) \<Rightarrow>
                      (Ok, d_SetAll d
                             (monitorWrites names (idset ! 0) response createdOn modifiedOn),
                       calls)
                  | _ \<Rightarrow> (Panicked, d, calls))))"





definition resourceIBMPrivateDNSGLBMonitorDelete ::
  "DNSAPI \<Rightarrow> string ResourceData \<Rightarrow> outcome \<times> string ResourceData \<times> event list" where
  "resourceIBMPrivateDNSGLBMonitorDelete api d =
     (case PrivateDNSClientSession api of
        Some err \<Rightarrow> (Failed err, d, [])
      | None \<Rightarrow>
          let idset = strings_Split (Id d) CHR ''/'' in
          if length idset < 2 then (Panicked, d, [])
          else
            let calls = [Call ''DeleteMonitor'' [idset ! 0, idset ! 1]] in
            (case DeleteMonitor api (idset ! 0) (idset ! 1) of
               (response, Some err) \<Rightarrow>
                 (Failed (Wrapped ''[ERROR] Error deleting dns services GLB Monitor:'' err),
                  d, calls)
             | (response, None) \<Rightarrow> (Ok, d_SetId d '''', calls)))"

text \<open>What an \<open>Exists\<close> handler returns: \<open>(bool, error)\<close>, or it panics.\<close>

datatype existence = Exists bool | ExistsFailed error | ExistsPanicked

definition resourceIBMPrivateDNSGLBMonitorExists ::
  "DNSAPI \<Rightarrow> string ResourceData \<Rightarrow> existence \<times> event list" where
  "resourceIBMPrivateDNSGLBMonitorExists api d =
     (case PrivateDNSClientSession api of
        Some err \<Rightarrow> (ExistsFailed err, [])
      | None \<Rightarrow>
          let idset = strings_Split (Id d) CHR ''/'' in
          if length idset < 2
          then (ExistsFailed (Error (''[ERROR] Incorrect ID '' @ Id d @
                  '': Id should be a combination of InstanceID/monitorID'')), [])
          else
            let calls = [Call ''GetMonitor'' [idset ! 0, idset ! 1]] in
            (case GetMonitor api (idset ! 0) (idset ! 1) of
               (response, detail, Some err) \<Rightarrow>
                 if response \<noteq> None \<and> detail \<noteq> None \<and> StatusCode (the detail) = 404
                 then (Exists False, calls)
                 else (ExistsFailed err, calls)
             | (response, detail, None) \<Rightarrow> (Exists True, calls)))"

subsection \<open>The permitted network: Create, Read, Delete, Exists\<close>


definition resourceIBMPrivateDNSPermittedNetworkRead ::
  "dns_names \<Rightarrow> DNSAPI \<Rightarrow> string ResourceData \<Rightarrow>
   outcome \<times> string ResourceData \<times> event list" where
  "resourceIBMPrivateDNSPermittedNetworkRead names api d =
     (case PrivateDNSClientSession api of
        Some err \<Rightarrow> (Failed err, d, [])
      | None \<Rightarrow>
          let idSet = strings_Split (Id d) CHR ''/'' in
          if length idSet < 3 then (Panicked, d, [])
          else
            let calls = [Call ''GetPermittedNetwork'' [idSet ! 0, idSet ! 1, idSet ! 2]] in
            (case GetPermittedNetwork api (idSet ! 0) (idSet ! 1) (idSet ! 2) of
               (response, detail, Some err) \<Rightarrow>
                 (Failed (Wrapped ''[ERROR] Error reading dns services permitted network:'' err),
                  d, calls)
             | (None, detail, None) \<Rightarrow> (Panicked, d, calls)
             | (Some response, detail, None) \<Rightarrow>
                 (case (nCreatedOn response, nModifiedOn response, nVpcCrn response) of
                    (Some createdOn, Some modifiedOn, Some vpcCrn) \<Rightarrow>
                      (Ok, d_SetAll d
                             [(pdnsInstanceID names, TfString (idSet ! 0)),
                              (pdnsZoneID names, TfString (idSet ! 1)),
                              (pdnsPermittedNetworkID, ptrString (nID response)),
                              (pdnsPermittedNetworkCreatedOn, TfString createdOn),
                              (pdnsPermittedNetworkModifiedOn, TfString modifiedOn),
                              (pdnsVpcCRN, ptrString vpcCrn),
                              (pdnsNetworkType, ptrString (nType response)),
                              (pdnsPermittedNetworkState, ptrString (nState response))],
                       calls)
                  | _ \<Rightarrow> (Panicked, d, calls))))"





section \<open>CIS firewall rules and CIS mTLS\<close>


definition cisFirewallrulesDescription :: string where
  "cisFirewallrulesDescription = ''description''"
definition cisMtlsCert :: string where "cisMtlsCert = ''certificate''"

text \<open>
  The firewall rule and the access certificate in the answers of the service
  (\<open>result.Result\<close>). \<open>rFilterID\<close> is \<open>Filter.ID\<close> behind the pointer \<open>Filter\<close>.
\<close>

record FirewallRule =
  rFilterID :: "string option option"
  rAction :: "string option"
  rPaused :: "bool option"
  rDescription :: "string option"
  rPriority :: "int option"

record AccessCertificate =
  aID :: "string option"
  aCreatedAt :: "string option"
  aUpdatedAt :: "string option"
  aExpiresOn :: "string option"

text \<open>
  The CIS services as the handlers call them. \<open>BluemixSession\<close> gives the IAM token.
  \<open>flex.ConvertTfToCisThreeVar\<close> is a function of the repository that is not among the
  sources: it splits the identity into three parts and returns an error, which every
  handler below discards.
\<close>

record CISAPI =
  BluemixSession :: "error + string"
  CisFirewallRulesSession :: "error option"
  CisFiltersSession :: "error option"
  CisMtlsSession :: "error option"
  ConvertTfToCisThreeVar :: "string \<Rightarrow> string \<times> string \<times> string \<times> error option"
  GetFirewallRule ::
    "string \<Rightarrow> string \<Rightarrow> string \<Rightarrow>
     FirewallRule option \<times> DetailedResponse option \<times> error option"
  UpdateFirewllRules ::
    "string \<Rightarrow> string \<Rightarrow> (string \<times> string tfvalue) list \<Rightarrow>
     FirewallRule option \<times> DetailedResponse option \<times> error option"
  DeleteFirewallRules ::
    "string \<Rightarrow> string \<Rightarrow> string \<Rightarrow> DetailedResponse option \<times> error option"
  DeleteFilters :: "string \<Rightarrow> string \<Rightarrow> string \<Rightarrow> error option"
  GetAccessCertificate ::
    "string \<Rightarrow> string \<Rightarrow> string \<Rightarrow>
     AccessCertificate option \<times> DetailedResponse option \<times> error option"
  UpdateAccessCertificate ::
    "string \<Rightarrow> string \<Rightarrow> string \<Rightarrow> (string \<times> string tfvalue) list \<Rightarrow>
     DetailedResponse option \<times> error option"
  DeleteAccessCertificate ::
    "string \<Rightarrow> string \<Rightarrow> string \<Rightarrow> DetailedResponse option \<times> error option"


subsection \<open>Firewall rules: Read, Update, Delete\<close>






subsection \<open>mTLS: Read, Update, Delete\<close>





section \<open>Power network: deletion with retry\<close>



subsection \<open>The shape of a handler's events under a lock\<close>



section \<open>HPCS data source (dataSourceIBMHPCSRead)\<close>
















section \<open>Services and records for evaluation\<close>




definition notFound :: "DetailedResponse option \<times> error option" where
  "notFound = (Some \<lparr>StatusCode = 404\<rparr>, Some (Error ''Not Found''))"

definition dns_gone :: DNSAPI where
  "dns_gone =
     \<lparr>PrivateDNSClientSession = None,
      GetMonitor = (\<lambda>i m. (None, notFound)),
      UpdateMonitor = (\<lambda>i m opts. notFound),
      DeleteMonitor = (\<lambda>i m. notFound),
      NewPermittedNetworkVpc = (\<lambda>crn. None),
      CreatePermittedNetwork = (\<lambda>i z t crn. (None, notFound)),
      GetPermittedNetwork = (\<lambda>i z n. (None, notFound)),
      DeletePermittedNetwork = (\<lambda>i z n. notFound)\<rparr>"

text \<open>An identity of three parts separated by colons, as the CIS handlers build it.\<close>

definition threeParts :: "string \<Rightarrow> string \<times> string \<times> string \<times> error option" where
  "threeParts ident =
     (case strings_Split ident CHR '':'' of
        a # b # c # rest \<Rightarrow> (a, b, c, None)
      | a # rest \<Rightarrow> (a, '''', '''', Some (Error ''cis_id or zone_id not passed''))
      | [] \<Rightarrow> ('''', '''', '''', Some (Error ''cis_id or zone_id not passed'')))"

definition cis_gone :: CISAPI where
  "cis_gone =
     \<lparr>BluemixSession = Inr ''token'',
      CisFirewallRulesSession = None,
      CisFiltersSession = None,
      CisMtlsSession = None,
      ConvertTfToCisThreeVar = threeParts,
      GetFirewallRule = (\<lambda>crn z i. (None, notFound)),
      UpdateFirewllRules = (\<lambda>crn z opts. (None, notFound)),
      DeleteFirewallRules = (\<lambda>crn z i. notFound),
      DeleteFilters = (\<lambda>crn z i. Some (Error ''Not Found'')),
      GetAccessCertificate = (\<lambda>crn z i. (None, notFound)),
      UpdateAccessCertificate = (\<lambda>crn z i opts. notFound),
      DeleteAccessCertificate = (\<lambda>crn z i. notFound)\<rparr>"






text \<open>
  A monitor and a DNS service that answers the monitor query with it, with the given
  status and error; a certificate and a CIS service that answers with it.
\<close>

definition example_monitor :: Monitor where
  "example_monitor =
     \<lparr>mID = Some ''m1'', mName = Some ''mon'', mCreatedOn = Some ''2021-01-01'',
      mModifiedOn = Some ''2021-01-02'', mType = Some ''HTTP'', mPort = Some 80,
      mPath = None, mInterval = Some 60, mRetries = None, mTimeout = None, mMethod = None,
      mExpectedCodes = None, mAllowInsecure = None, mDescription = None,
      mExpectedBody = None, mHeadersVar = []\<rparr>"

definition dns_with_monitor :: "int \<Rightarrow> error option \<Rightarrow> DNSAPI" where
  "dns_with_monitor status err =
     dns_gone\<lparr>GetMonitor := (\<lambda>i m. (Some example_monitor, Some \<lparr>StatusCode = status\<rparr>, err))\<rparr>"

definition example_cert :: AccessCertificate where
  "example_cert =
     \<lparr>aID = Some ''c1'', aCreatedAt = Some ''2021-01-01'', aUpdatedAt = Some ''2021-01-02'',
      aExpiresOn = Some ''2031-01-01''\<rparr>"

definition cis_with_cert :: CISAPI where
  "cis_with_cert =
     cis_gone\<lparr>GetAccessCertificate :=
                (\<lambda>crn z i. (Some example_cert, Some \<lparr>StatusCode = 200\<rparr>, None))\<rparr>"

section \<open>Verified properties\<close>

subsection \<open>The poll loop\<close>








subsection \<open>Power network\<close>

text \<open>
  C9. In the deletion poll, every error of the status query, whatever its kind, makes
  the refresh function report the NotFound state with a nil error; NotFound is the
  target label of the deletion wait and not a pending one, so the wait takes any
  failing status query as the confirmation that the entity is gone.
\<close>

theorem refresh_delete_any_error_is_not_found:
  "isIBMPINetworkRefreshDeleteFunc (Inl err) = Refresh None State_NotFound None \<and>
   State_NotFound \<in> set (Target (isWaitForIBMPINetworkDeleted_conf timeout)) \<and>
   State_NotFound \<notin> set (Pending (isWaitForIBMPINetworkDeleted_conf timeout))"
  by (simp add: isIBMPINetworkRefreshDeleteFunc_def isWaitForIBMPINetworkDeleted_conf_def)

text \<open>
  C1, at the failing input. The update body asks for the DNS server 9.9.9.9 and nothing
  else; the remote network still has 8.8.8.8. The refresh function reports the target
  state \<open>State_Available\<close>, although the requested list differs from the observed one.
\<close>

theorem refresh_update_dns_mismatch_reports_available:
  "isIBMPINetworkRefreshUpdateFunc
     (emptyNetworkUpdate\<lparr>uDNSServers := [''9.9.9.9'']\<rparr>)
     (Inr (emptyNetwork\<lparr>DNSServers := [''8.8.8.8'']\<rparr>))
   = Refresh (Some (emptyNetwork\<lparr>DNSServers := [''8.8.8.8'']\<rparr>)) State_Available None"
  by (simp add: isIBMPINetworkRefreshUpdateFunc_def checkDNSServers_def
      checkIPAddressRanges_def sort_Strings_def emptyNetworkUpdate_def emptyNetwork_def)

subsection \<open>generateIPData and the validation of Create\<close>





























subsection \<open>Identities and locks of the private DNS handlers\<close>

text \<open>
  C3, at the failing input. With the identity \<open>abc\<close>, which has one segment where two
  or three are required, the Read and the Delete of the monitor and the Read of the
  permitted network panic at \<open>idset[1]\<close>; they make no request and return no error.
  The Exists of the monitor returns the explicit error for the same identity.
\<close>

theorem monitor_read_short_identity_panics:
  "resourceIBMPrivateDNSGLBMonitorRead names (api\<lparr>PrivateDNSClientSession := None\<rparr>)
     (d\<lparr>Id := ''abc''\<rparr>) = (Panicked, d\<lparr>Id := ''abc''\<rparr>, []) \<and>
   resourceIBMPrivateDNSGLBMonitorDelete (api\<lparr>PrivateDNSClientSession := None\<rparr>)
     (d\<lparr>Id := ''abc''\<rparr>) = (Panicked, d\<lparr>Id := ''abc''\<rparr>, []) \<and>
   resourceIBMPrivateDNSPermittedNetworkRead names (api\<lparr>PrivateDNSClientSession := None\<rparr>)
     (d\<lparr>Id := ''abc''\<rparr>) = (Panicked, d\<lparr>Id := ''abc''\<rparr>, []) \<and>
   resourceIBMPrivateDNSGLBMonitorExists (api\<lparr>PrivateDNSClientSession := None\<rparr>)
     (d\<lparr>Id := ''abc''\<rparr>)
     = (ExistsFailed (Error
          ''[ERROR] Incorrect ID abc: Id should be a combination of InstanceID/monitorID''), [])"
  by (simp add: resourceIBMPrivateDNSGLBMonitorRead_def resourceIBMPrivateDNSGLBMonitorDelete_def
      resourceIBMPrivateDNSPermittedNetworkRead_def resourceIBMPrivateDNSGLBMonitorExists_def)








subsection \<open>Delete when the entity is gone\<close>










subsection \<open>Read when the entity is gone, and when it is there\<close>




subsection \<open>Update when nothing has changed\<close>













subsection \<open>The HPCS data source\<close>
















end
